theory Spec2Isabelle
  imports Complex_Main
begin

section \<open>The classifier base classes of \<^verbatim>\<open>art/classifiers/classifier.py\<close>\<close>

text \<open>
  The module defines the abstract classifier contracts of the Adversarial Robustness
  Toolbox: the constructor checks of \<^verbatim>\<open>Classifier.__init__\<close>, the forward preprocessing
  pipeline, the postprocessing pipeline, the default \<^verbatim>\<open>fit_generator\<close>, the backward
  (gradient) pipeline and the metaclass \<^verbatim>\<open>input_filter\<close> that wraps the public entry
  points. Python names that start with an underscore lose it here
  (\<^verbatim>\<open>_apply_preprocessing\<close> is \<open>apply_preprocessing\<close>), since an Isabelle name starts with
  a letter.
\<close>

subsection \<open>Errors, element types, arrays\<close>

text \<open>
  Every exception the module raises, or that a Python primitive it uses raises, is a value.
  The string of \<open>ValueError\<close> and \<open>TypeError\<close> abbreviates the message of the source.
\<close>

datatype error =
    ValueError string
  | TypeError string
  | IndexError
  | KeyError
  | ZeroDivisionError
  | OverflowError
  | NotImplementedError

text \<open>
  A NumPy array is seen by this module through its \<^verbatim>\<open>dtype\<close> only; the shape and the
  elements are the payload \<open>data\<close>, of a type the model leaves open.
\<close>

datatype dtype =
    Bool8
  | Int8 | Int16 | Int32 | Int64
  | UInt8 | UInt16 | UInt32 | UInt64
  | Float16 | Float32 | Float64

record 'a ndarray =
  dtype :: dtype
  data :: 'a

text \<open>
  The calls into NumPy and into \<^verbatim>\<open>art.utils\<close> are parameters of the model. Each may
  raise. \<open>asarray v t\<close> is \<^verbatim>\<open>np.asarray(v, dtype=t)\<close>, \<open>subtract a b\<close> is \<^verbatim>\<open>a - b\<close>,
  \<open>true_divide a b\<close> is \<^verbatim>\<open>a / b\<close> (the module imports \<^verbatim>\<open>division\<close> from \<^verbatim>\<open>__future__\<close>),
  and \<open>check_and_transform_label_format\<close> is the label formatter of \<^verbatim>\<open>art.utils\<close>, which
  is not part of this module. The type \<open>'p\<close> is that of the values of the standardisation
  pair (floats or arrays).
\<close>

record ('a, 'p) library =
  asarray :: "'p \<Rightarrow> dtype \<Rightarrow> error + 'a ndarray"
  subtract :: "'a ndarray \<Rightarrow> 'a ndarray \<Rightarrow> error + 'a ndarray"
  true_divide :: "'a ndarray \<Rightarrow> 'a ndarray \<Rightarrow> error + 'a ndarray"
  check_and_transform_label_format :: "'a ndarray option \<Rightarrow> nat \<Rightarrow> error + 'a ndarray option"

subsection \<open>Events\<close>

text \<open>
  The claims speak of which calls are made and in which order, so every function of the
  model returns, beside its result, the list of the external calls it made, oldest first.
  A defence is named in an event by its \<open>name\<close>, which stands for the identity of the
  Python object.
\<close>

datatype event =
    Label_format
  | Defence_call string
  | Estimate_gradient string
  | Postprocessor_call string
  | Np_asarray
  | Np_subtract
  | Np_divide
  | Get_batch
  | Fit_call int int

type_synonym 'r traced = "event list \<times> (error + 'r)"

definition done_t :: "'r \<Rightarrow> 'r traced" where
  "done_t r = ([], Inr r)"

definition raise_t :: "error \<Rightarrow> 'r traced" where
  "raise_t e = ([], Inl e)"

definition call_t :: "event \<Rightarrow> error + 'r \<Rightarrow> 'r traced" where
  "call_t ev r = ([ev], r)"

definition then_t :: "'r traced \<Rightarrow> ('r \<Rightarrow> 's traced) \<Rightarrow> 's traced" where
  "then_t m f =
     (case m of
        (t, Inl e) \<Rightarrow> (t, Inl e)
      | (t, Inr r) \<Rightarrow> (case f r of (t', r') \<Rightarrow> (t @ t', r')))"

subsection \<open>Defences and the classifier\<close>

text \<open>
  A defence has the two flags and, as a preprocessor, the call \<^verbatim>\<open>defence(x, y)\<close> and
  \<^verbatim>\<open>estimate_gradient(x, gradients)\<close>. Preprocessors are taken as functions of their
  arguments that return.
\<close>

record defence =
  name :: string
  apply_fit :: bool
  apply_predict :: bool

record 'a preprocessor = defence +
  call :: "'a ndarray \<Rightarrow> 'a ndarray option \<Rightarrow> 'a ndarray \<times> 'a ndarray option"
  estimate_gradient :: "'a ndarray \<Rightarrow> 'a ndarray \<Rightarrow> 'a ndarray"

text \<open>
  Arrays are mutable and passed by reference, so postprocessing runs on a store: \<open>cells\<close>
  gives the contents of the array at an address, the addresses below \<open>fresh\<close> are in use,
  and a new array is put at \<open>fresh\<close>.
\<close>

type_synonym addr = nat

record 'a heap =
  cells :: "addr \<Rightarrow> 'a ndarray"
  fresh :: addr

text \<open>
  A postprocessor is called with one array, \<^verbatim>\<open>defence(post_preds)\<close>. It is taken to read
  and write no array but that one and those it creates: for the contents \<open>c\<close> of the array
  it is passed, \<open>post_call d c = (c', r)\<close> gives the contents \<open>c'\<close> it leaves in that array
  (\<open>c\<close> itself when it does not write to it) and its result \<open>r\<close>, which is \<open>None\<close> when it
  returns the array it was passed and \<open>Some v\<close> when it returns a new array of contents
  \<open>v\<close>. \<open>call_postprocessor\<close> is the effect of the call on the store.
\<close>

record 'a postprocessor = defence +
  post_call :: "'a ndarray \<Rightarrow> 'a ndarray \<times> 'a ndarray option"

definition call_postprocessor :: "'a postprocessor \<Rightarrow> addr \<Rightarrow> 'a heap \<Rightarrow> addr \<times> 'a heap" where
  "call_postprocessor d p h =
     (case post_call d (cells h p) of
        (c', None) \<Rightarrow> (p, h\<lparr>cells := (cells h)(p := c')\<rparr>)
      | (c', Some v) \<Rightarrow>
          (fresh h, h\<lparr>cells := (cells h)(p := c', fresh h := v), fresh := Suc (fresh h)\<rparr>))"


text \<open>
  A clip bound is a float or an array of floats, one per feature. Floats are taken as
  rationals; \<open>greater_equal\<close> is \<^verbatim>\<open>a >= b\<close> with NumPy's broadcasting of one-dimensional
  arrays, which raises when the lengths differ and neither is 1.
\<close>

datatype bound = Scalar rat | Array "rat list"

fun greater_equal :: "bound \<Rightarrow> bound \<Rightarrow> error + bool list" where
  "greater_equal (Scalar a) (Scalar b) = Inr [a \<ge> b]"
| "greater_equal (Scalar a) (Array bs) = Inr (map (\<lambda>b. a \<ge> b) bs)"
| "greater_equal (Array as) (Scalar b) = Inr (map (\<lambda>a. a \<ge> b) as)"
| "greater_equal (Array as) (Array bs) =
     (if length as = length bs then Inr (map (\<lambda>(a, b). a \<ge> b) (zip as bs))
      else if length as = 1 then Inr (map (\<lambda>b. as ! 0 \<ge> b) bs)
      else if length bs = 1 then Inr (map (\<lambda>a. a \<ge> bs ! 0) as)
      else Inl (ValueError ''operands could not be broadcast together''))"

definition any :: "bool list \<Rightarrow> bool" where
  "any bs = list_ex (\<lambda>b. b) bs"

text \<open>
  The attributes \<^verbatim>\<open>Classifier.__init__\<close> sets. \<open>clip_values\<close> and \<open>preprocessing\<close> are
  stored as they were given, as sequences; the methods unpack \<open>preprocessing\<close> into two
  values.
\<close>

record ('a, 'p) classifier =
  clip_values :: "bound list option"
  preprocessing_defences :: "'a preprocessor list option"
  postprocessing_defences :: "'a postprocessor list option"
  preprocessing :: "'p list option"

text \<open>
  What a concrete classifier supplies for the abstract methods the base classes call:
  \<^verbatim>\<open>nb_classes()\<close>, and \<^verbatim>\<open>fit\<close>. \<open>fit impl x y b e kwargs\<close> is the whole call
  \<^verbatim>\<open>self.fit(x, y, nb_epochs=e, batch_size=b, **kwargs)\<close>, with the binding of the arguments
  and the wrapper of the metaclass that it goes through; it changes the state \<open>'m\<close> of the
  model and may raise.
\<close>

record ('a, 'kw, 'm) implementation =
  nb_classes :: nat
  fit :: "'a ndarray \<Rightarrow> 'a ndarray option \<Rightarrow> int \<Rightarrow> int \<Rightarrow> 'kw \<Rightarrow> 'm \<Rightarrow> error + 'm"

subsection \<open>Construction\<close>

text \<open>
  \<^verbatim>\<open>Classifier.__init__\<close>, the constructor of the base class alone, called with the
  configuration. A defence argument is absent, one defence or a list of them.
\<close>

datatype 'd defences_arg = No_defence | One_defence 'd | Defence_list "'d list"

definition as_list :: "'d defences_arg \<Rightarrow> 'd list option" where
  "as_list arg =
     (case arg of
        One_defence d \<Rightarrow> Some [d]
      | Defence_list ds \<Rightarrow> Some ds
      | No_defence \<Rightarrow> None)"

definition check_clip_values :: "bound list option \<Rightarrow> error + unit" where
  "check_clip_values clip_values' =
     (case clip_values' of
        None \<Rightarrow> Inr ()
      | Some cv \<Rightarrow>
          if length cv \<noteq> 2 then
            Inl (ValueError ''`clip_values` should be a tuple of 2 floats or arrays containing the allowed data range.'')
          else
            (case greater_equal (cv ! 0) (cv ! 1) of
               Inl e \<Rightarrow> Inl e
             | Inr bs \<Rightarrow>
                 if any bs then Inl (ValueError ''Invalid `clip_values`: min >= max.'')
                 else Inr ()))"

definition init ::
  "bound list option \<Rightarrow> 'a preprocessor defences_arg \<Rightarrow> 'a postprocessor defences_arg \<Rightarrow>
   'p list option \<Rightarrow> error + ('a, 'p) classifier" where
  "init clip_values' preprocessing_defences' postprocessing_defences' preprocessing' =
     (case check_clip_values clip_values' of
        Inl e \<Rightarrow> Inl e
      | Inr _ \<Rightarrow>
          if preprocessing' \<noteq> None \<and> length (the preprocessing') \<noteq> 2 then
            Inl (ValueError ''`preprocessing` should be a tuple of 2 floats with the values to subtract and divide the model inputs.'')
          else
            Inr \<lparr>clip_values = clip_values',
                 preprocessing_defences = as_list preprocessing_defences',
                 postprocessing_defences = as_list postprocessing_defences',
                 preprocessing = preprocessing'\<rparr>)"

text \<open>
  \<^verbatim>\<open>ClassifierNeuralNetwork.__init__(self, channel_index=None, **kwargs)\<close>, the constructor
  that comes first for a neural-network classifier (\<^verbatim>\<open>ClassifierNeuralNetworkType\<close> lists
  \<^verbatim>\<open>ClassifierNeuralNetwork\<close> before \<^verbatim>\<open>ClassifierGradients\<close>, which has no constructor, and
  \<^verbatim>\<open>Classifier\<close>). The configuration arrives in \<^verbatim>\<open>kwargs\<close>; the body stores the channel
  index and calls \<^verbatim>\<open>super().__init__()\<close> with no argument, so \<^verbatim>\<open>Classifier.__init__\<close> runs
  with its defaults.
\<close>

record ('a, 'p) neural_network_classifier = "('a, 'p) classifier" +
  channel_index :: "int option"

definition classifier_neural_network_init ::
  "int option \<Rightarrow> bound list option \<Rightarrow> 'a preprocessor defences_arg \<Rightarrow>
   'a postprocessor defences_arg \<Rightarrow> 'p list option \<Rightarrow>
   error + ('a, 'p) neural_network_classifier" where
  "classifier_neural_network_init channel_index' clip_values' preprocessing_defences'
       postprocessing_defences' preprocessing' =
     (case init None No_defence No_defence None of
        Inl e \<Rightarrow> Inl e
      | Inr self \<Rightarrow>
          Inr \<lparr>clip_values = clip_values self,
               preprocessing_defences = preprocessing_defences self,
               postprocessing_defences = postprocessing_defences self,
               preprocessing = preprocessing self,
               channel_index = channel_index'\<rparr>)"

subsection \<open>Forward preprocessing\<close>

text \<open>\<^verbatim>\<open>Classifier._apply_preprocessing_defences\<close>: the loop, then the method.\<close>

fun preprocessing_defences_loop ::
  "bool \<Rightarrow> 'a preprocessor list \<Rightarrow> 'a ndarray \<Rightarrow> 'a ndarray option \<Rightarrow>
   ('a ndarray \<times> 'a ndarray option) traced" where
  "preprocessing_defences_loop fit' [] x y = done_t (x, y)"
| "preprocessing_defences_loop fit' (d # ds) x y =
     (if fit' then
        (if apply_fit d then
           then_t (call_t (Defence_call (name d)) (Inr (call d x y)))
             (\<lambda>(x, y). preprocessing_defences_loop fit' ds x y)
         else preprocessing_defences_loop fit' ds x y)
      else
        (if apply_predict d then
           then_t (call_t (Defence_call (name d)) (Inr (call d x y)))
             (\<lambda>(x, y). preprocessing_defences_loop fit' ds x y)
         else preprocessing_defences_loop fit' ds x y))"

definition apply_preprocessing_defences ::
  "('a, 'p) classifier \<Rightarrow> 'a ndarray \<Rightarrow> 'a ndarray option \<Rightarrow> bool \<Rightarrow>
   ('a ndarray \<times> 'a ndarray option) traced" where
  "apply_preprocessing_defences self x y fit' =
     (case preprocessing_defences self of
        Some ds \<Rightarrow> preprocessing_defences_loop fit' ds x y
      | None \<Rightarrow> done_t (x, y))"

text \<open>
  \<^verbatim>\<open>Classifier._apply_preprocessing_standardisation\<close>: the test of the element type comes
  first and does not look at \<^verbatim>\<open>self.preprocessing\<close>.
\<close>

definition unpack2 :: "'p list \<Rightarrow> error + ('p \<times> 'p)" where
  "unpack2 p = (case p of [a, b] \<Rightarrow> Inr (a, b) | _ \<Rightarrow> Inl (ValueError ''unpack''))"

definition apply_preprocessing_standardisation ::
  "('a, 'p) library \<Rightarrow> ('a, 'p) classifier \<Rightarrow> 'a ndarray \<Rightarrow> 'a ndarray traced" where
  "apply_preprocessing_standardisation np self x =
     (if dtype x \<in> set [UInt8, UInt16, UInt32, UInt64] then
        raise_t (TypeError ''The data type of input data `x` cannot represent negative values.'')
      else
        (case preprocessing self of
           Some p \<Rightarrow>
             then_t ([], unpack2 p) (\<lambda>(sub, dv).
             then_t (call_t Np_asarray (asarray np sub (dtype x))) (\<lambda>sub.
             then_t (call_t Np_asarray (asarray np dv (dtype x))) (\<lambda>dv.
             then_t (call_t Np_subtract (subtract np x sub)) (\<lambda>res.
             call_t Np_divide (true_divide np res dv)))))
         | None \<Rightarrow> done_t x))"

text \<open>\<^verbatim>\<open>Classifier._apply_preprocessing\<close>.\<close>

definition apply_preprocessing ::
  "('a, 'p) library \<Rightarrow> ('a, 'kw, 'm) implementation \<Rightarrow> ('a, 'p) classifier \<Rightarrow>
   'a ndarray \<Rightarrow> 'a ndarray option \<Rightarrow> bool \<Rightarrow> ('a ndarray \<times> 'a ndarray option) traced" where
  "apply_preprocessing np impl self x y fit' =
     then_t (call_t Label_format (check_and_transform_label_format np y (nb_classes impl))) (\<lambda>y.
     then_t (apply_preprocessing_defences self x y fit') (\<lambda>(x_preprocessed, y_preprocessed).
     then_t (apply_preprocessing_standardisation np self x_preprocessed) (\<lambda>x_preprocessed.
     done_t (x_preprocessed, y_preprocessed))))"

subsection \<open>Postprocessing\<close>



subsection \<open>The backward pipeline\<close>

text \<open>
  \<^verbatim>\<open>ClassifierGradients._apply_preprocessing_defences_gradient\<close>: the loop runs over
  \<^verbatim>\<open>self.preprocessing_defences[::-1]\<close>.
\<close>

fun defences_gradient_loop ::
  "bool \<Rightarrow> 'a preprocessor list \<Rightarrow> 'a ndarray \<Rightarrow> 'a ndarray \<Rightarrow> 'a ndarray traced" where
  "defences_gradient_loop fit' [] x gradients = done_t gradients"
| "defences_gradient_loop fit' (d # ds) x gradients =
     (if fit' then
        (if apply_fit d then
           then_t (call_t (Estimate_gradient (name d)) (Inr (estimate_gradient d x gradients)))
             (\<lambda>gradients. defences_gradient_loop fit' ds x gradients)
         else defences_gradient_loop fit' ds x gradients)
      else
        (if apply_predict d then
           then_t (call_t (Estimate_gradient (name d)) (Inr (estimate_gradient d x gradients)))
             (\<lambda>gradients. defences_gradient_loop fit' ds x gradients)
         else defences_gradient_loop fit' ds x gradients))"

definition apply_preprocessing_defences_gradient ::
  "('a, 'p) classifier \<Rightarrow> 'a ndarray \<Rightarrow> 'a ndarray \<Rightarrow> bool \<Rightarrow> 'a ndarray traced" where
  "apply_preprocessing_defences_gradient self x gradients fit' =
     (case preprocessing_defences self of
        Some ds \<Rightarrow> defences_gradient_loop fit' (rev ds) x gradients
      | None \<Rightarrow> done_t gradients)"

text \<open>\<^verbatim>\<open>ClassifierGradients._apply_preprocessing_normalization_gradient\<close>.\<close>

definition apply_preprocessing_normalization_gradient ::
  "('a, 'p) library \<Rightarrow> ('a, 'p) classifier \<Rightarrow> 'a ndarray \<Rightarrow> 'a ndarray traced" where
  "apply_preprocessing_normalization_gradient np self gradients =
     (case preprocessing self of
        Some p \<Rightarrow>
          then_t ([], unpack2 p) (\<lambda>(_, dv).
          then_t (call_t Np_asarray (asarray np dv (dtype gradients))) (\<lambda>dv.
          call_t Np_divide (true_divide np gradients dv)))
      | None \<Rightarrow> done_t gradients)"

text \<open>
  \<^verbatim>\<open>ClassifierGradients._apply_preprocessing_gradient\<close>: it passes no \<^verbatim>\<open>fit\<close>, so the
  default \<^verbatim>\<open>fit=False\<close> of the callee applies.
\<close>

definition apply_preprocessing_gradient ::
  "('a, 'p) library \<Rightarrow> ('a, 'p) classifier \<Rightarrow> 'a ndarray \<Rightarrow> 'a ndarray \<Rightarrow> 'a ndarray traced" where
  "apply_preprocessing_gradient np self x gradients =
     then_t (apply_preprocessing_normalization_gradient np self gradients) (\<lambda>gradients.
     apply_preprocessing_defences_gradient self x gradients False)"

subsection \<open>Projections of a trace\<close>

fun forward_order :: "event list \<Rightarrow> string list" where
  "forward_order [] = []"
| "forward_order (Defence_call n # t) = n # forward_order t"
| "forward_order (_ # t) = forward_order t"

fun backward_order :: "event list \<Rightarrow> string list" where
  "backward_order [] = []"
| "backward_order (Estimate_gradient n # t) = n # backward_order t"
| "backward_order (_ # t) = backward_order t"

fun arithmetic :: "event list \<Rightarrow> event list" where
  "arithmetic [] = []"
| "arithmetic (Np_asarray # t) = Np_asarray # arithmetic t"
| "arithmetic (Np_subtract # t) = Np_subtract # arithmetic t"
| "arithmetic (Np_divide # t) = Np_divide # arithmetic t"
| "arithmetic (_ # t) = arithmetic t"

subsection \<open>Fitting from a generator\<close>










subsection \<open>Layer names\<close>

text \<open>\<^verbatim>\<open>ClassifierNeuralNetwork.layer_names\<close>: the property of the base class.\<close>

definition layer_names :: "'self \<Rightarrow> error + string list" where
  "layer_names self = Inl NotImplementedError"

subsection \<open>The metaclass \<^verbatim>\<open>input_filter\<close>\<close>

text \<open>
  A Python value passed to an entry point is \<^verbatim>\<open>None\<close>, an \<^verbatim>\<open>np.ndarray\<close>, or anything
  else (a nested sequence, a layer index, a batch size). A method takes the positional
  arguments after \<^verbatim>\<open>self\<close> and the keyword arguments. \<open>np_array\<close> is \<^verbatim>\<open>np.array\<close>, a
  parameter, which may raise.
\<close>

datatype ('n, 'o) pyobj = PyNone | PyNdarray 'n | PyOther 'o

type_synonym ('n, 'o, 'r) pymethod =
  "('n, 'o) pyobj list \<Rightarrow> (string \<Rightarrow> ('n, 'o) pyobj option) \<Rightarrow> error + 'r"

fun isinstance_ndarray :: "('n, 'o) pyobj \<Rightarrow> bool" where
  "isinstance_ndarray (PyNdarray _) = True"
| "isinstance_ndarray _ = False"

text \<open>
  \<^verbatim>\<open>replacement_function\<close>, the closure \<^verbatim>\<open>make_replacement\<close> returns. \<^verbatim>\<open>args[0]\<close> and
  \<^verbatim>\<open>args[1]\<close> raise \<^verbatim>\<open>IndexError\<close> when the tuple is too short; \<open>lst\<close> is bound
  wherever it is written to, since the read of \<^verbatim>\<open>args\<close> before it has succeeded.
\<close>

definition coerce_x ::
  "(('n, 'o) pyobj \<Rightarrow> error + 'n) \<Rightarrow> ('n, 'o) pyobj list \<Rightarrow> (string \<Rightarrow> ('n, 'o) pyobj option) \<Rightarrow>
   error + (('n, 'o) pyobj list \<times> (string \<Rightarrow> ('n, 'o) pyobj option))" where
  "coerce_x np_array args kwargs =
     (case kwargs ''x'' of
        Some v \<Rightarrow>
          if \<not> isinstance_ndarray v then
            (case np_array v of
               Inl e \<Rightarrow> Inl e
             | Inr a \<Rightarrow> Inr (args, kwargs(''x'' \<mapsto> PyNdarray a)))
          else Inr (args, kwargs)
      | None \<Rightarrow>
          if length args < 1 then Inl IndexError
          else if \<not> isinstance_ndarray (args ! 0) then
            (case np_array (args ! 0) of
               Inl e \<Rightarrow> Inl e
             | Inr a \<Rightarrow> Inr (args[0 := PyNdarray a], kwargs))
          else Inr (args, kwargs))"

definition coerce_y ::
  "(('n, 'o) pyobj \<Rightarrow> error + 'n) \<Rightarrow> bool \<Rightarrow> ('n, 'o) pyobj list \<Rightarrow>
   ('n, 'o) pyobj list \<Rightarrow> (string \<Rightarrow> ('n, 'o) pyobj option) \<Rightarrow>
   error + (('n, 'o) pyobj list \<times> (string \<Rightarrow> ('n, 'o) pyobj option))" where
  "coerce_y np_array has_y args lst kwargs =
     (case kwargs ''y'' of
        Some v \<Rightarrow>
          if v \<noteq> PyNone \<and> \<not> isinstance_ndarray v then
            (case np_array v of
               Inl e \<Rightarrow> Inl e
             | Inr a \<Rightarrow> Inr (lst, kwargs(''y'' \<mapsto> PyNdarray a)))
          else Inr (lst, kwargs)
      | None \<Rightarrow>
          if has_y then
            (if length args < 2 then Inl IndexError
             else if \<not> isinstance_ndarray (args ! 1) then
               (case np_array (args ! 1) of
                  Inl e \<Rightarrow> Inl e
                | Inr a \<Rightarrow> Inr (lst[1 := PyNdarray a], kwargs))
             else Inr (lst, kwargs))
          else Inr (lst, kwargs))"

definition replacement_function ::
  "(('n, 'o) pyobj \<Rightarrow> error + 'n) \<Rightarrow> (string \<Rightarrow> ('n, 'o, 'r) pymethod option) \<Rightarrow> string \<Rightarrow> bool \<Rightarrow>
   ('n, 'o, 'r) pymethod" where
  "replacement_function np_array fdict func_name has_y args kwargs =
     (case coerce_x np_array args kwargs of
        Inl e \<Rightarrow> Inl e
      | Inr (lst, kwargs) \<Rightarrow>
          (case coerce_y np_array has_y args lst kwargs of
             Inl e \<Rightarrow> Inl e
           | Inr (lst, kwargs) \<Rightarrow>
               (case fdict func_name of
                  None \<Rightarrow> Inl KeyError
                | Some f \<Rightarrow> f lst kwargs)))"

definition make_replacement ::
  "(('n, 'o) pyobj \<Rightarrow> error + 'n) \<Rightarrow> (string \<Rightarrow> ('n, 'o, 'r) pymethod option) \<Rightarrow> string \<Rightarrow> bool \<Rightarrow>
   ('n, 'o, 'r) pymethod" where
  "make_replacement np_array fdict func_name has_y =
     replacement_function np_array fdict func_name has_y"

text \<open>
  \<^verbatim>\<open>input_filter.__init__\<close>: from the dictionary of the class body to the attributes of
  the class. Only a method the class body defines is replaced.
\<close>

definition replacement_list_no_y :: "string list" where
  "replacement_list_no_y = [''predict'', ''get_activations'', ''class_gradient'']"

definition replacement_list_has_y :: "string list" where
  "replacement_list_has_y = [''fit'', ''loss_gradient'']"

definition setattr_replacement ::
  "(('n, 'o) pyobj \<Rightarrow> error + 'n) \<Rightarrow> (string \<Rightarrow> ('n, 'o, 'r) pymethod option) \<Rightarrow> bool \<Rightarrow> string \<Rightarrow>
   (string \<Rightarrow> ('n, 'o, 'r) pymethod option) \<Rightarrow> (string \<Rightarrow> ('n, 'o, 'r) pymethod option)" where
  "setattr_replacement np_array clsdict has_y item cls =
     (if clsdict item \<noteq> None then cls(item \<mapsto> make_replacement np_array clsdict item has_y)
      else cls)"

definition input_filter_init ::
  "(('n, 'o) pyobj \<Rightarrow> error + 'n) \<Rightarrow> (string \<Rightarrow> ('n, 'o, 'r) pymethod option) \<Rightarrow>
   (string \<Rightarrow> ('n, 'o, 'r) pymethod option)" where
  "input_filter_init np_array clsdict =
     fold (setattr_replacement np_array clsdict True) replacement_list_has_y
       (fold (setattr_replacement np_array clsdict False) replacement_list_no_y clsdict)"

subsection \<open>Selection by mode\<close>

text \<open>
  The flag of a defence that the mode asks for: \<open>apply_fit\<close> in fit mode, \<open>apply_predict\<close>
  otherwise.
\<close>

definition selected :: "bool \<Rightarrow> 'z defence_scheme \<Rightarrow> bool" where
  "selected fit' d = (if fit' then apply_fit d else apply_predict d)"

subsection \<open>A concrete library and concrete defences\<close>

text \<open>
  An instance of the library on two-dimensional arrays of rationals, for running the
  model on concrete inputs. It agrees with NumPy on floats that the operations handle
  without rounding: a value of the standardisation pair is cast to a float type unchanged
  and to an integer type by truncation; the second operand of an operation is a
  one-by-one array, applied to every element of the first, or an array of the shape of
  the first. A zero divisor, for which NumPy returns \<^verbatim>\<open>inf\<close> or \<^verbatim>\<open>nan\<close>, is outside the
  instance and reported as an error. The label formatter of the instance leaves labels as
  they are, which is right for absent and for one-hot labels.
\<close>

definition is_float :: "dtype \<Rightarrow> bool" where
  "is_float t = (t \<in> set [Float16, Float32, Float64])"

definition exact_asarray :: "rat \<Rightarrow> dtype \<Rightarrow> error + rat list list ndarray" where
  "exact_asarray v t =
     Inr \<lparr>dtype = t,
          data = [[if is_float t then v else if v < 0 then - of_int \<lfloor>- v\<rfloor> else of_int \<lfloor>v\<rfloor>]]\<rparr>"

definition elementwise ::
  "(rat \<Rightarrow> rat \<Rightarrow> rat) \<Rightarrow> rat list list \<Rightarrow> rat list list \<Rightarrow> rat list list" where
  "elementwise f a b =
     (case b of
        [[v]] \<Rightarrow> map (map (\<lambda>u. f u v)) a
      | _ \<Rightarrow> map (\<lambda>(r, s). map (\<lambda>(u, v). f u v) (zip r s)) (zip a b))"

definition exact_subtract ::
  "rat list list ndarray \<Rightarrow> rat list list ndarray \<Rightarrow> error + rat list list ndarray" where
  "exact_subtract a b =
     Inr \<lparr>dtype = dtype a, data = elementwise (\<lambda>u v. u - v) (data a) (data b)\<rparr>"

definition exact_true_divide ::
  "rat list list ndarray \<Rightarrow> rat list list ndarray \<Rightarrow> error + rat list list ndarray" where
  "exact_true_divide a b =
     (if 0 \<in> set (concat (data b)) then Inl ZeroDivisionError
      else Inr \<lparr>dtype = (if is_float (dtype a) then dtype a else Float64),
                data = elementwise (\<lambda>u v. u / v) (data a) (data b)\<rparr>)"

definition exact_library :: "(rat list list, rat) library" where
  "exact_library =
     \<lparr>asarray = exact_asarray, subtract = exact_subtract, true_divide = exact_true_divide,
      check_and_transform_label_format = (\<lambda>y n. Inr y)\<rparr>"

text \<open>An implementation whose model state counts the calls of \<^verbatim>\<open>fit\<close>.\<close>

definition counting_implementation :: "(rat list list, unit, nat) implementation" where
  "counting_implementation = \<lparr>nb_classes = 2, fit = (\<lambda>x y b e kw m. Inr (Suc m))\<rparr>"

text \<open>
  Three preprocessors: two that apply in both modes, one that applies in fit mode only.
\<close>

definition doubling :: "rat list list preprocessor" where
  "doubling =
     \<lparr>name = ''D1'', apply_fit = True, apply_predict = True,
      call = (\<lambda>x y. (x\<lparr>data := map (map (\<lambda>v. 2 * v)) (data x)\<rparr>, y)),
      estimate_gradient = (\<lambda>x g. g\<lparr>data := map (map (\<lambda>v. 2 * v)) (data g)\<rparr>)\<rparr>"

definition shifting :: "rat list list preprocessor" where
  "shifting =
     \<lparr>name = ''D2'', apply_fit = True, apply_predict = True,
      call = (\<lambda>x y. (x\<lparr>data := map (map (\<lambda>v. v + 1)) (data x)\<rparr>, y)),
      estimate_gradient = (\<lambda>x g. g)\<rparr>"

definition training_only :: "rat list list preprocessor" where
  "training_only =
     \<lparr>name = ''D3'', apply_fit = True, apply_predict = False,
      call = (\<lambda>x y. (x\<lparr>data := map (map (\<lambda>v. - v)) (data x)\<rparr>, y)),
      estimate_gradient = (\<lambda>x g. g\<lparr>data := map (map (\<lambda>v. - v)) (data g)\<rparr>)\<rparr>"

definition example_classifier ::
  "rat list list preprocessor list option \<Rightarrow> rat list option \<Rightarrow> (rat list list, rat) classifier" where
  "example_classifier ds p =
     \<lparr>clip_values = Some [Scalar 0, Scalar 1], preprocessing_defences = ds,
      postprocessing_defences = None, preprocessing = p\<rparr>"

text \<open>A preprocessor that casts its input to a float type.\<close>

definition casting_to_float :: "rat list list preprocessor" where
  "casting_to_float =
     \<lparr>name = ''D4'', apply_fit = True, apply_predict = True,
      call = (\<lambda>x y. (x\<lparr>dtype := Float32\<rparr>, y)),
      estimate_gradient = (\<lambda>x g. g)\<rparr>"

text \<open>
  Two postprocessors, one that writes to the array it is passed and returns it, one that
  leaves it alone and returns a new array; and a store whose array at address 0 is the
  caller's.
\<close>

definition halving_in_place :: "rat list list postprocessor" where
  "halving_in_place =
     \<lparr>name = ''P1'', apply_fit = False, apply_predict = True,
      post_call = (\<lambda>c. (c\<lparr>data := map (map (\<lambda>v. v / 2)) (data c)\<rparr>, None))\<rparr>"


definition example_heap :: "rat list list heap" where
  "example_heap = \<lparr>cells = (\<lambda>q. \<lparr>dtype = Float64, data = [[2, 6]]\<rparr>), fresh = 1\<rparr>"




subsection \<open>Notions the properties are stated with\<close>

text \<open>The element types that \<^verbatim>\<open>_apply_preprocessing_standardisation\<close> refuses.\<close>

definition unsigned_dtypes :: "dtype set" where
  "unsigned_dtypes = set [UInt8, UInt16, UInt32, UInt64]"

text \<open>
  Clip bounds feature by feature: a float counts for every feature, an array of length
  one likewise; two bounds go together when their lengths agree or one of them is 1.
  \<open>min_below_max_everywhere\<close> is the element-wise \<open>min < max\<close> of the specification.
\<close>

fun bound_length :: "bound \<Rightarrow> nat" where
  "bound_length (Scalar a) = 1"
| "bound_length (Array as) = length as"

fun feature :: "bound \<Rightarrow> nat \<Rightarrow> rat" where
  "feature (Scalar a) i = a"
| "feature (Array as) i = (if length as = 1 then as ! 0 else as ! i)"

definition broadcastable :: "bound \<Rightarrow> bound \<Rightarrow> bool" where
  "broadcastable lo hi =
     (bound_length lo = bound_length hi \<or> bound_length lo = 1 \<or> bound_length hi = 1)"

definition nb_features :: "bound \<Rightarrow> bound \<Rightarrow> nat" where
  "nb_features lo hi =
     (if bound_length lo = bound_length hi then bound_length lo
      else if bound_length lo = 1 then bound_length hi
      else bound_length lo)"

definition min_below_max_everywhere :: "bound \<Rightarrow> bound \<Rightarrow> bool" where
  "min_below_max_everywhere lo hi =
     (broadcastable lo hi \<and> (\<forall>i<nb_features lo hi. feature lo i < feature hi i))"

text \<open>
  The primary input and the label array of a call, as the wrapper looks for them: under
  the keyword first, else at the position of the signature (\<open>x\<close> first, \<open>y\<close> second);
  and the call with one of them replaced.
\<close>

definition supplied_x :: "('n, 'o) pyobj list \<Rightarrow> (string \<Rightarrow> ('n, 'o) pyobj option) \<Rightarrow> ('n, 'o) pyobj option" where
  "supplied_x args kwargs =
     (case kwargs ''x'' of
        Some v \<Rightarrow> Some v
      | None \<Rightarrow> (if 0 < length args then Some (args ! 0) else None))"

definition supplied_y :: "('n, 'o) pyobj list \<Rightarrow> (string \<Rightarrow> ('n, 'o) pyobj option) \<Rightarrow> ('n, 'o) pyobj option" where
  "supplied_y args kwargs =
     (case kwargs ''y'' of
        Some v \<Rightarrow> Some v
      | None \<Rightarrow> (if 1 < length args then Some (args ! 1) else None))"

definition replace_x ::
  "('n, 'o) pyobj \<Rightarrow> ('n, 'o) pyobj list \<times> (string \<Rightarrow> ('n, 'o) pyobj option) \<Rightarrow>
   ('n, 'o) pyobj list \<times> (string \<Rightarrow> ('n, 'o) pyobj option)" where
  "replace_x v c =
     (case c of (args, kwargs) \<Rightarrow>
        (case kwargs ''x'' of
           Some _ \<Rightarrow> (args, kwargs(''x'' \<mapsto> v))
         | None \<Rightarrow> (args[0 := v], kwargs)))"

definition replace_y ::
  "('n, 'o) pyobj \<Rightarrow> ('n, 'o) pyobj list \<times> (string \<Rightarrow> ('n, 'o) pyobj option) \<Rightarrow>
   ('n, 'o) pyobj list \<times> (string \<Rightarrow> ('n, 'o) pyobj option)" where
  "replace_y v c =
     (case c of (args, kwargs) \<Rightarrow>
        (case kwargs ''y'' of
           Some _ \<Rightarrow> (args, kwargs(''y'' \<mapsto> v))
         | None \<Rightarrow> (args[1 := v], kwargs)))"

definition coerced_call ::
  "bool \<Rightarrow> 'n \<Rightarrow> 'n \<Rightarrow> ('n, 'o) pyobj list \<times> (string \<Rightarrow> ('n, 'o) pyobj option) \<Rightarrow>
   ('n, 'o) pyobj list \<times> (string \<Rightarrow> ('n, 'o) pyobj option)" where
  "coerced_call has_y a b c =
     (if has_y then replace_y (PyNdarray b) (replace_x (PyNdarray a) c)
      else replace_x (PyNdarray a) c)"

text \<open>
  A concrete \<^verbatim>\<open>np.array\<close> on nested sequences of rationals (\<^verbatim>\<open>None\<close>, which NumPy turns
  into an object array, is outside it), and a method that returns what it received.
\<close>

definition example_np_array ::
  "(rat list list ndarray, rat list list) pyobj \<Rightarrow> error + rat list list ndarray" where
  "example_np_array v =
     (case v of
        PyOther s \<Rightarrow> Inr \<lparr>dtype = Float64, data = s\<rparr>
      | PyNdarray n \<Rightarrow> Inr n
      | PyNone \<Rightarrow> Inl (ValueError ''object array''))"

definition echo ::
  "(rat list list ndarray, rat list list,
    (rat list list ndarray, rat list list) pyobj list \<times>
    (rat list list ndarray, rat list list) pyobj option \<times>
    (rat list list ndarray, rat list list) pyobj option) pymethod" where
  "echo args kwargs = Inr (args, kwargs ''x'', kwargs ''y'')"



section \<open>Properties\<close>

subsection \<open>Traces of the loops\<close>

lemma then_t_Inl: "then_t (t, Inl e) f = (t, Inl e)"
  by (simp add: then_t_def)

lemma then_t_Inr: "then_t (t, Inr r) f = (t @ fst (f r), snd (f r))"
  by (simp add: then_t_def split: prod.splits)

lemma then_t_call_Inr: "then_t (call_t ev (Inr r)) f = (ev # fst (f r), snd (f r))"
  by (simp add: call_t_def then_t_Inr)


lemma preprocessing_defences_loop_trace:
  "fst (preprocessing_defences_loop fit' ds x y) =
     map (\<lambda>d. Defence_call (name d)) (filter (selected fit') ds)"
  by (cases fit'; induction ds arbitrary: x y)
     (simp_all add: done_t_def then_t_call_Inr selected_def split: prod.splits)

lemma preprocessing_defences_loop_returns:
  "\<exists>r. snd (preprocessing_defences_loop fit' ds x y) = Inr r"
  by (cases fit'; induction ds arbitrary: x y)
     (simp_all add: done_t_def then_t_call_Inr split: prod.splits)

lemma defences_gradient_loop_trace:
  "fst (defences_gradient_loop fit' ds x g) =
     map (\<lambda>d. Estimate_gradient (name d)) (filter (selected fit') ds)"
  by (cases fit'; induction ds arbitrary: g)
     (simp_all add: done_t_def then_t_call_Inr selected_def)

lemma defences_gradient_loop_returns:
  "\<exists>r. snd (defences_gradient_loop fit' ds x g) = Inr r"
  by (cases fit'; induction ds arbitrary: g)
     (simp_all add: done_t_def then_t_call_Inr)

lemma forward_order_calls: "forward_order (map (\<lambda>d. Defence_call (name d)) ds) = map name ds"
  by (induction ds) simp_all

lemma backward_order_estimates:
  "backward_order (map (\<lambda>d. Estimate_gradient (name d)) ds) = map name ds"
  by (induction ds) simp_all

lemma backward_order_append: "backward_order (s @ t) = backward_order s @ backward_order t"
  by (induction s rule: backward_order.induct) simp_all

lemma normalization_gradient_no_estimate:
  "backward_order (fst (apply_preprocessing_normalization_gradient np self g)) = []"
  by (auto simp: apply_preprocessing_normalization_gradient_def done_t_def unpack2_def
      then_t_def call_t_def split: option.splits list.splits sum.splits prod.splits)

lemma arithmetic_append: "arithmetic (s @ t) = arithmetic s @ arithmetic t"
  by (induction s rule: arithmetic.induct) simp_all

lemma arithmetic_calls: "arithmetic (map (\<lambda>d. Defence_call (name d)) ds) = []"
  by (induction ds) simp_all

subsection \<open>The backward pipeline reverses the forward order\<close>

text \<open>
  Claim C1. Let the classifier have the list \<open>ds\<close> of preprocessing defences, every one
  selected by its flags, in the mode \<open>fit'\<close> of the forward pass and in the predict mode
  that the backward entry point uses, and let the division by the standardisation factor
  return. Then the forward pipeline calls the defences in list order, and
  \<^verbatim>\<open>_apply_preprocessing_gradient\<close> calls their \<^verbatim>\<open>estimate_gradient\<close> in exactly the
  reverse of that order.
\<close>

theorem backward_order_is_reverse_of_forward_order:
  assumes "preprocessing_defences self = Some ds"
    and "\<forall>d\<in>set ds. selected fit' d \<and> apply_predict d"
    and "snd (apply_preprocessing_normalization_gradient np self gradients) = Inr g"
  shows "forward_order (fst (apply_preprocessing_defences self x y fit')) = map name ds \<and>
         backward_order (fst (apply_preprocessing_gradient np self x gradients)) =
           rev (forward_order (fst (apply_preprocessing_defences self x y fit')))"
proof -
  have sel: "filter (selected fit') ds = ds"
    using assms(2) by simp
  have pred: "filter (selected False) (rev ds) = rev ds"
    using assms(2) by (simp add: selected_def)
  have fwd: "forward_order (fst (apply_preprocessing_defences self x y fit')) = map name ds"
    by (simp add: apply_preprocessing_defences_def assms(1) preprocessing_defences_loop_trace
        sel forward_order_calls)
  obtain t where norm: "apply_preprocessing_normalization_gradient np self gradients = (t, Inr g)"
    using assms(3) by (cases "apply_preprocessing_normalization_gradient np self gradients") simp
  have "backward_order t = []"
    using normalization_gradient_no_estimate [of np self gradients] norm by simp
  then have "backward_order (fst (apply_preprocessing_gradient np self x gradients)) =
               map name (rev ds)"
    by (simp add: apply_preprocessing_gradient_def norm then_t_Inr backward_order_append
        apply_preprocessing_defences_gradient_def assms(1) defences_gradient_loop_trace pred
        backward_order_estimates)
  with fwd show ?thesis by (simp add: rev_map)
qed

theorem backward_order_is_reverse_of_forward_order_witness:
  "forward_order (fst (apply_preprocessing_defences
       (example_classifier (Some [doubling, shifting]) (Some [1 / 2, 1 / 2]))
       \<lparr>dtype = Float64, data = [[1, 0]]\<rparr> None True)) = [''D1'', ''D2''] \<and>
   backward_order (fst (apply_preprocessing_gradient exact_library
       (example_classifier (Some [doubling, shifting]) (Some [1 / 2, 1 / 2]))
       \<lparr>dtype = Float64, data = [[1, 0]]\<rparr> \<lparr>dtype = Float64, data = [[3, 5]]\<rparr>)) = [''D2'', ''D1'']"
proof -
  let ?c = "example_classifier (Some [doubling, shifting]) (Some [1 / 2, 1 / 2])"
  have h1: "preprocessing_defences ?c = Some [doubling, shifting]"
    by (simp add: example_classifier_def)
  have h2: "\<forall>d\<in>set [doubling, shifting]. selected True d \<and> apply_predict d"
    by (simp add: selected_def doubling_def shifting_def)
  have h3: "snd (apply_preprocessing_normalization_gradient exact_library ?c
                  \<lparr>dtype = Float64, data = [[3, 5]]\<rparr>) = Inr \<lparr>dtype = Float64, data = [[6, 10]]\<rparr>"
    by (simp add: apply_preprocessing_normalization_gradient_def example_classifier_def
        unpack2_def then_t_def call_t_def exact_library_def exact_asarray_def
        exact_true_divide_def is_float_def elementwise_def)
  show ?thesis
    using backward_order_is_reverse_of_forward_order [OF h1 h2 h3,
        where x = "\<lparr>dtype = Float64, data = [[1, 0]]\<rparr>" and y = None]
    by (simp add: doubling_def shifting_def)
qed

subsection \<open>The backward entry point works in predict mode\<close>

lemma backward_order_member:
  "n \<in> set (backward_order t) \<longleftrightarrow> Estimate_gradient n \<in> set t"
  by (induction t rule: backward_order.induct) auto

text \<open>
  Claim C10. \<^verbatim>\<open>_apply_preprocessing_gradient\<close> takes no mode: every call of
  \<^verbatim>\<open>estimate_gradient\<close> it makes is of a defence of the list whose \<open>apply_predict\<close> is
  set, whatever its \<open>apply_fit\<close>; and when the division by the standardisation factor
  returns, the calls are exactly those of the defences with \<open>apply_predict\<close>, in reverse
  list order.
\<close>

theorem gradient_entry_point_filters_by_apply_predict:
  assumes "preprocessing_defences self = Some ds"
  shows "(\<forall>n. Estimate_gradient n \<in> set (fst (apply_preprocessing_gradient np self x gradients)) \<longrightarrow>
              (\<exists>d\<in>set ds. name d = n \<and> apply_predict d)) \<and>
         (\<forall>g. snd (apply_preprocessing_normalization_gradient np self gradients) = Inr g \<longrightarrow>
              backward_order (fst (apply_preprocessing_gradient np self x gradients)) =
                map name (rev (filter apply_predict ds)))"
proof -
  have sel: "selected False = (apply_predict :: 'a preprocessor \<Rightarrow> bool)"
    by (rule ext) (simp add: selected_def)
  obtain t r where norm: "apply_preprocessing_normalization_gradient np self gradients = (t, r)"
    by (cases "apply_preprocessing_normalization_gradient np self gradients")
  have none: "backward_order t = []"
    using normalization_gradient_no_estimate [of np self gradients] norm by simp
  show ?thesis
  proof (cases r)
    case (Inl e)
    then have "fst (apply_preprocessing_gradient np self x gradients) = t"
      by (simp add: apply_preprocessing_gradient_def norm then_t_Inl)
    moreover have "\<And>n. Estimate_gradient n \<notin> set t"
      using none backward_order_member [of _ t] by simp
    ultimately show ?thesis using Inl norm by simp
  next
    case (Inr g)
    have order: "backward_order (fst (apply_preprocessing_gradient np self x gradients)) =
            map name (rev (filter apply_predict ds))"
      by (simp add: apply_preprocessing_gradient_def norm Inr then_t_Inr backward_order_append
          none apply_preprocessing_defences_gradient_def assms defences_gradient_loop_trace sel
          backward_order_estimates rev_filter)
    have "\<exists>d\<in>set ds. name d = n \<and> apply_predict d"
      if "Estimate_gradient n \<in> set (fst (apply_preprocessing_gradient np self x gradients))" for n
    proof -
      from that have "n \<in> set (backward_order (fst (apply_preprocessing_gradient np self x gradients)))"
        by (simp add: backward_order_member)
      then have "n \<in> set (map name (rev (filter apply_predict ds)))"
        by (simp only: order)
      then show ?thesis by auto
    qed
    with order show ?thesis by blast
  qed
qed

theorem gradient_entry_point_filters_by_apply_predict_witness:
  "Estimate_gradient ''D3'' \<notin> set (fst (apply_preprocessing_gradient exact_library
       (example_classifier (Some [doubling, training_only, shifting]) None)
       \<lparr>dtype = Float64, data = [[1, 0]]\<rparr> \<lparr>dtype = Float64, data = [[3, 5]]\<rparr>)) \<and>
   backward_order (fst (apply_preprocessing_gradient exact_library
       (example_classifier (Some [doubling, training_only, shifting]) None)
       \<lparr>dtype = Float64, data = [[1, 0]]\<rparr> \<lparr>dtype = Float64, data = [[3, 5]]\<rparr>)) = [''D2'', ''D1'']"
proof -
  let ?c = "example_classifier (Some [doubling, training_only, shifting]) None"
  let ?g = "\<lparr>dtype = Float64, data = [[3, 5::rat]]\<rparr>"
  have h1: "preprocessing_defences ?c = Some [doubling, training_only, shifting]"
    by (simp add: example_classifier_def)
  have h2: "snd (apply_preprocessing_normalization_gradient exact_library ?c ?g) = Inr ?g"
    by (simp add: apply_preprocessing_normalization_gradient_def example_classifier_def done_t_def)
  have h3: "\<not> (\<exists>d\<in>set [doubling, training_only, shifting]. name d = ''D3'' \<and> apply_predict d)"
    by (simp add: doubling_def training_only_def shifting_def)
  show ?thesis
    using gradient_entry_point_filters_by_apply_predict [OF h1,
        of exact_library "\<lparr>dtype = Float64, data = [[1, 0]]\<rparr>" ?g] h2 h3
    by (auto simp: doubling_def training_only_def shifting_def)
qed

subsection \<open>The test of the element type\<close>

text \<open>
  Claim C9. Standardisation of an array of an unsigned integer type raises the type error
  for every classifier, also one with no standardisation pair, and makes no call before.
\<close>

theorem unsigned_check_is_unconditional:
  assumes "dtype x \<in> unsigned_dtypes"
  shows "apply_preprocessing_standardisation np self x =
           ([], Inl (TypeError ''The data type of input data `x` cannot represent negative values.''))"
  using assms by (simp add: apply_preprocessing_standardisation_def unsigned_dtypes_def raise_t_def)

theorem unsigned_check_is_unconditional_witness:
  "preprocessing (example_classifier None None) = None \<and>
   apply_preprocessing_standardisation exact_library (example_classifier None None)
     \<lparr>dtype = UInt8, data = [[255, 0]]\<rparr> =
       ([], Inl (TypeError ''The data type of input data `x` cannot represent negative values.''))"
proof -
  have h: "dtype \<lparr>dtype = UInt8, data = [[255, 0::rat]]\<rparr> \<in> unsigned_dtypes"
    by (simp add: unsigned_dtypes_def)
  show ?thesis
    using unsigned_check_is_unconditional [OF h, of exact_library "example_classifier None None"]
    by (simp add: example_classifier_def)
qed

lemma preprocessing_defences_loop_dtype:
  assumes "\<forall>d\<in>set ds. selected fit' d \<longrightarrow> (\<forall>x y. dtype (fst (call d x y)) = dtype x)"
    and "snd (preprocessing_defences_loop fit' ds x y) = Inr (x', y')"
  shows "dtype x' = dtype x"
  using assms
proof (induction ds arbitrary: x y)
  case Nil
  then show ?case by (simp add: done_t_def)
next
  case (Cons d ds)
  show ?case
  proof (cases "selected fit' d")
    case True
    obtain x1 y1 where c: "call d x y = (x1, y1)" by (cases "call d x y")
    from True c Cons.prems(2)
    have "snd (preprocessing_defences_loop fit' ds x1 y1) = Inr (x', y')"
      by (cases fit') (simp_all add: selected_def then_t_call_Inr)
    moreover have "\<forall>d\<in>set ds. selected fit' d \<longrightarrow> (\<forall>x y. dtype (fst (call d x y)) = dtype x)"
      using Cons.prems(1) by simp
    ultimately have "dtype x' = dtype x1" by (rule Cons.IH [rotated])
    moreover have "dtype x1 = dtype x"
      using Cons.prems(1) True c by (metis fst_conv list.set_intros(1))
    ultimately show ?thesis by simp
  next
    case False
    with Cons.prems(2) have "snd (preprocessing_defences_loop fit' ds x y) = Inr (x', y')"
      by (cases fit') (simp_all add: selected_def)
    moreover have "\<forall>d\<in>set ds. selected fit' d \<longrightarrow> (\<forall>x y. dtype (fst (call d x y)) = dtype x)"
      using Cons.prems(1) by simp
    ultimately show ?thesis by (rule Cons.IH [rotated])
  qed
qed

lemma apply_preprocessing_defences_arithmetic:
  "arithmetic (fst (apply_preprocessing_defences self x y fit')) = []"
  by (simp add: apply_preprocessing_defences_def preprocessing_defences_loop_trace
      arithmetic_calls done_t_def split: option.splits)

lemma apply_preprocessing_defences_returns:
  "\<exists>r. snd (apply_preprocessing_defences self x y fit') = Inr r"
proof (cases "preprocessing_defences self")
  case None
  then show ?thesis by (simp add: apply_preprocessing_defences_def done_t_def)
next
  case (Some ds)
  then show ?thesis
    using preprocessing_defences_loop_returns [of fit' ds x y]
    by (simp add: apply_preprocessing_defences_def)
qed

lemma apply_preprocessing_unfold:
  assumes "check_and_transform_label_format np y (nb_classes impl) = Inr y'"
    and "apply_preprocessing_defences self x y' fit' = (t, Inr (x', y''))"
  shows "apply_preprocessing np impl self x y fit' =
           (Label_format # t @ fst (apply_preprocessing_standardisation np self x'),
            case snd (apply_preprocessing_standardisation np self x') of
              Inl e \<Rightarrow> Inl e | Inr r \<Rightarrow> Inr (r, y''))"
proof -
  obtain s r where st: "apply_preprocessing_standardisation np self x' = (s, r)"
    by (cases "apply_preprocessing_standardisation np self x'")
  show ?thesis
    by (cases r)
       (simp_all add: apply_preprocessing_def assms then_t_call_Inr then_t_Inr then_t_Inl st
         done_t_def)
qed

text \<open>
  Claim C3, as the code has it. The test of the element type sits in the standardisation
  step, after the defences, so it sees the array the defences hand on. With a
  standardisation pair configured, a label formatter that returns, and defences selected
  by the mode that keep the element type (in particular with no defences), forward
  preprocessing of an input of an unsigned integer type raises the type error, and no
  NumPy arithmetic (cast, subtraction, division) has been called by then.
\<close>

theorem unsigned_input_raises_before_arithmetic:
  assumes "preprocessing self = Some [sub, dv]"
    and "dtype x \<in> unsigned_dtypes"
    and "check_and_transform_label_format np y (nb_classes impl) = Inr y'"
    and "\<forall>ds. preprocessing_defences self = Some ds \<longrightarrow>
           (\<forall>d\<in>set ds. selected fit' d \<longrightarrow> (\<forall>x y. dtype (fst (call d x y)) = dtype x))"
  shows "snd (apply_preprocessing np impl self x y fit') =
           Inl (TypeError ''The data type of input data `x` cannot represent negative values.'') \<and>
         arithmetic (fst (apply_preprocessing np impl self x y fit')) = []"
proof -
  obtain t x' y'' where d: "apply_preprocessing_defences self x y' fit' = (t, Inr (x', y''))"
    using apply_preprocessing_defences_returns [of self x y' fit']
    by (cases "apply_preprocessing_defences self x y' fit'") auto
  have "dtype x' = dtype x"
  proof (cases "preprocessing_defences self")
    case None
    with d show ?thesis by (simp add: apply_preprocessing_defences_def done_t_def)
  next
    case (Some ds)
    with d have "snd (preprocessing_defences_loop fit' ds x y') = Inr (x', y'')"
      by (simp add: apply_preprocessing_defences_def)
    with assms(4) Some show ?thesis
      using preprocessing_defences_loop_dtype [of ds fit' x y' x' y''] by simp
  qed
  with assms(2) have s: "apply_preprocessing_standardisation np self x' =
      ([], Inl (TypeError ''The data type of input data `x` cannot represent negative values.''))"
    by (simp add: apply_preprocessing_standardisation_def unsigned_dtypes_def raise_t_def)
  have "arithmetic t = []"
    using apply_preprocessing_defences_arithmetic [of self x y' fit'] d by simp
  then show ?thesis
    by (simp add: apply_preprocessing_unfold [OF assms(3) d] s arithmetic_append)
qed

theorem unsigned_input_raises_before_arithmetic_witness:
  "apply_preprocessing exact_library counting_implementation
     (example_classifier (Some [doubling, shifting]) (Some [1 / 2, 1 / 2]))
     \<lparr>dtype = UInt8, data = [[255, 0]]\<rparr> None False =
   ([Label_format, Defence_call ''D1'', Defence_call ''D2''],
    Inl (TypeError ''The data type of input data `x` cannot represent negative values.''))"
proof -
  let ?c = "example_classifier (Some [doubling, shifting]) (Some [1 / 2, 1 / 2])"
  have h1: "preprocessing ?c = Some [1 / 2, 1 / 2]"
    by (simp add: example_classifier_def)
  have h2: "dtype \<lparr>dtype = UInt8, data = [[255, 0::rat]]\<rparr> \<in> unsigned_dtypes"
    by (simp add: unsigned_dtypes_def)
  have h3: "check_and_transform_label_format exact_library None (nb_classes counting_implementation)
              = Inr None"
    by (simp add: exact_library_def)
  have h4: "\<forall>ds. preprocessing_defences ?c = Some ds \<longrightarrow>
           (\<forall>d\<in>set ds. selected False d \<longrightarrow> (\<forall>x y. dtype (fst (call d x y)) = dtype x))"
    by (simp add: example_classifier_def doubling_def shifting_def)
  have t: "fst (apply_preprocessing exact_library counting_implementation ?c
             \<lparr>dtype = UInt8, data = [[255, 0]]\<rparr> None False) =
           [Label_format, Defence_call ''D1'', Defence_call ''D2'']"
    by (simp add: apply_preprocessing_def example_classifier_def exact_library_def
        apply_preprocessing_defences_def doubling_def shifting_def then_t_call_Inr
        apply_preprocessing_standardisation_def raise_t_def then_t_def done_t_def call_t_def)
  show ?thesis
    using unsigned_input_raises_before_arithmetic [OF h1 h2 h3 h4] t
    by (simp add: prod_eq_iff)
qed

text \<open>
  The claim as stated, for every classifier with a pair configured, fails: with a defence
  that casts to a float type, forward preprocessing of an unsigned input returns, the
  arithmetic done.
\<close>

theorem unsigned_input_counterexample:
  "snd (apply_preprocessing exact_library counting_implementation
          (example_classifier (Some [casting_to_float]) (Some [1 / 2, 1 / 2]))
          \<lparr>dtype = UInt8, data = [[255, 0]]\<rparr> None False) =
     Inr (\<lparr>dtype = Float32, data = [[509, - 1]]\<rparr>, None) \<and>
   arithmetic (fst (apply_preprocessing exact_library counting_implementation
          (example_classifier (Some [casting_to_float]) (Some [1 / 2, 1 / 2]))
          \<lparr>dtype = UInt8, data = [[255, 0]]\<rparr> None False)) =
     [Np_asarray, Np_asarray, Np_subtract, Np_divide]"
  by (simp add: apply_preprocessing_def example_classifier_def exact_library_def
      apply_preprocessing_defences_def casting_to_float_def then_t_call_Inr then_t_Inr done_t_def
      apply_preprocessing_standardisation_def unpack2_def call_t_def
      exact_asarray_def exact_subtract_def exact_true_divide_def is_float_def elementwise_def)

subsection \<open>Standardisation\<close>

text \<open>
  Claim C2. With the pair \<open>(sub, dv)\<close> configured and an array \<open>x'\<close> of a type that is
  not an unsigned integer type reaching the standardisation step (the input itself when
  no defence applies), the step casts \<open>sub\<close> and \<open>dv\<close> to the element type of \<open>x'\<close>,
  subtracts and divides, and forward preprocessing returns that quotient. In the scenario
  of the specification (clip values \<open>(0, 1)\<close>, no defences, the pair \<open>(0.5, 0.5)\<close>, the
  input \<open>[[1.0, 0.0]]\<close>) the result is \<open>[[1.0, -1.0]]\<close>; all numbers involved are binary
  floats and the operations are exact on them.
\<close>

theorem standardisation_subtracts_then_divides:
  assumes "preprocessing self = Some [sub, dv]"
    and "check_and_transform_label_format np y (nb_classes impl) = Inr y'"
    and "snd (apply_preprocessing_defences self x y' fit') = Inr (x', y'')"
    and "dtype x' \<notin> unsigned_dtypes"
    and "asarray np sub (dtype x') = Inr sub'"
    and "asarray np dv (dtype x') = Inr dv'"
    and "subtract np x' sub' = Inr centred"
    and "true_divide np centred dv' = Inr res"
  shows "snd (apply_preprocessing_standardisation np self x') = Inr res \<and>
         snd (apply_preprocessing np impl self x y fit') = Inr (res, y'') \<and>
         init (Some [Scalar 0, Scalar 1]) No_defence No_defence (Some [1 / 2, 1 / 2]) =
           Inr (example_classifier None (Some [1 / 2, 1 / 2])) \<and>
         snd (apply_preprocessing exact_library counting_implementation
                (example_classifier None (Some [1 / 2, 1 / 2]))
                \<lparr>dtype = Float64, data = [[1, 0]]\<rparr> None False) =
           Inr (\<lparr>dtype = Float64, data = [[1, - 1]]\<rparr>, None)"
proof -
  have s: "apply_preprocessing_standardisation np self x' =
             ([Np_asarray, Np_asarray, Np_subtract, Np_divide], Inr res)"
    using assms(4)
    by (simp add: apply_preprocessing_standardisation_def unsigned_dtypes_def assms(1,5-8)
        unpack2_def then_t_Inr then_t_call_Inr call_t_def)
  obtain t where d: "apply_preprocessing_defences self x y' fit' = (t, Inr (x', y''))"
    using assms(3) by (cases "apply_preprocessing_defences self x y' fit'") simp
  have p: "snd (apply_preprocessing np impl self x y fit') = Inr (res, y'')"
    by (simp add: apply_preprocessing_unfold [OF assms(2) d] s)
  have i: "init (Some [Scalar 0, Scalar 1]) No_defence No_defence (Some [1 / 2, 1 / 2 :: rat]) =
           Inr (example_classifier None (Some [1 / 2, 1 / 2]))"
    by (simp add: init_def check_clip_values_def any_def as_list_def example_classifier_def)
  have e: "snd (apply_preprocessing exact_library counting_implementation
                (example_classifier None (Some [1 / 2, 1 / 2]))
                \<lparr>dtype = Float64, data = [[1, 0]]\<rparr> None False) =
           Inr (\<lparr>dtype = Float64, data = [[1, - 1]]\<rparr>, None)"
    by (simp add: apply_preprocessing_def example_classifier_def exact_library_def
        apply_preprocessing_defences_def then_t_call_Inr then_t_Inr done_t_def
        apply_preprocessing_standardisation_def unpack2_def call_t_def
        exact_asarray_def exact_subtract_def exact_true_divide_def is_float_def elementwise_def)
  from s p i e show ?thesis by simp
qed

theorem standardisation_subtracts_then_divides_witness:
  "snd (apply_preprocessing exact_library counting_implementation
          (example_classifier (Some [doubling, shifting]) (Some [1 / 2, 1 / 2]))
          \<lparr>dtype = Float32, data = [[1, 0]]\<rparr> None False) =
     Inr (\<lparr>dtype = Float32, data = [[5, 1]]\<rparr>, None)"
proof -
  let ?c = "example_classifier (Some [doubling, shifting]) (Some [1 / 2, 1 / 2])"
  let ?x' = "\<lparr>dtype = Float32, data = [[3, 1::rat]]\<rparr>"
  have h1: "preprocessing ?c = Some [1 / 2, 1 / 2]"
    by (simp add: example_classifier_def)
  have h2: "check_and_transform_label_format exact_library None (nb_classes counting_implementation)
              = Inr None"
    by (simp add: exact_library_def)
  have h3: "snd (apply_preprocessing_defences ?c \<lparr>dtype = Float32, data = [[1, 0]]\<rparr> None False) =
              Inr (?x', None)"
    by (simp add: apply_preprocessing_defences_def example_classifier_def doubling_def
        shifting_def then_t_call_Inr done_t_def)
  have h4: "dtype ?x' \<notin> unsigned_dtypes"
    by (simp add: unsigned_dtypes_def)
  have h5: "asarray exact_library (1 / 2) (dtype ?x') = Inr \<lparr>dtype = Float32, data = [[1 / 2]]\<rparr>"
    by (simp add: exact_library_def exact_asarray_def is_float_def)
  have h6: "subtract exact_library ?x' \<lparr>dtype = Float32, data = [[1 / 2]]\<rparr> =
              Inr \<lparr>dtype = Float32, data = [[5 / 2, 1 / 2]]\<rparr>"
    by (simp add: exact_library_def exact_subtract_def elementwise_def)
  have h7: "true_divide exact_library \<lparr>dtype = Float32, data = [[5 / 2, 1 / 2]]\<rparr>
              \<lparr>dtype = Float32, data = [[1 / 2]]\<rparr> = Inr \<lparr>dtype = Float32, data = [[5, 1]]\<rparr>"
    by (simp add: exact_library_def exact_true_divide_def elementwise_def is_float_def)
  show ?thesis
    using standardisation_subtracts_then_divides [OF h1 h2 h3 h4 h5 h5 h6 h7] by simp
qed

subsection \<open>Construction\<close>

lemma greater_equal_broadcast:
  assumes "broadcastable lo hi"
  shows "greater_equal lo hi =
           Inr (map (\<lambda>i. feature lo i \<ge> feature hi i) [0..<nb_features lo hi])"
proof (cases lo)
  case lo: (Scalar a)
  show ?thesis
  proof (cases hi)
    case (Scalar b)
    with lo show ?thesis by (simp add: nb_features_def)
  next
    case (Array bs)
    have "map (\<lambda>b. a \<ge> b) bs =
          map (\<lambda>i. a \<ge> (if length bs = 1 then bs ! 0 else bs ! i)) [0..<length bs]"
      by (rule nth_equalityI) auto
    with lo Array show ?thesis by (simp add: nb_features_def)
  qed
next
  case lo: (Array as)
  show ?thesis
  proof (cases hi)
    case (Scalar b)
    have "map (\<lambda>a. a \<ge> b) as =
          map (\<lambda>i. (if length as = 1 then as ! 0 else as ! i) \<ge> b) [0..<length as]"
      by (rule nth_equalityI) auto
    with lo Scalar show ?thesis by (simp add: nb_features_def)
  next
    case (Array bs)
    consider (same) "length as = length bs"
      | (left) "length as \<noteq> length bs" "length as = 1"
      | (right) "length as \<noteq> length bs" "length as \<noteq> 1" "length bs = 1"
      using assms lo Array unfolding broadcastable_def by fastforce
    then show ?thesis
    proof cases
      case same
      have "map (\<lambda>(a, b). a \<ge> b) (zip as bs) =
            map (\<lambda>i. (if length as = 1 then as ! 0 else as ! i) \<ge>
                       (if length bs = 1 then bs ! 0 else bs ! i)) [0..<length as]"
        using same by (intro nth_equalityI) auto
      with lo Array same show ?thesis by (simp add: nb_features_def)
    next
      case left
      have "map (\<lambda>b. as ! 0 \<ge> b) bs =
            map (\<lambda>i. as ! 0 \<ge> bs ! i) [0..<length bs]"
        by (rule nth_equalityI) auto
      with lo Array left show ?thesis by (simp add: nb_features_def)
    next
      case right
      have "map (\<lambda>a. a \<ge> bs ! 0) as =
            map (\<lambda>i. as ! i \<ge> bs ! 0) [0..<length as]"
        by (rule nth_equalityI) auto
      with lo Array right show ?thesis by (simp add: nb_features_def)
    qed
  qed
qed

lemma greater_equal_not_broadcastable:
  assumes "\<not> broadcastable lo hi"
  shows "\<exists>m. greater_equal lo hi = Inl (ValueError m)"
  using assms by (cases lo; cases hi) (auto simp: broadcastable_def)

lemma any_map_upt: "any (map P [0..<n]) \<longleftrightarrow> (\<exists>i<n. P i)"
  by (auto simp: any_def list_ex_iff)

lemma check_clip_values_raises:
  assumes "\<exists>i<nb_features lo hi. feature lo i \<ge> feature hi i"
  shows "\<exists>m. check_clip_values (Some [lo, hi]) = Inl (ValueError m)"
proof (cases "broadcastable lo hi")
  case True
  with assms show ?thesis
    by (simp add: check_clip_values_def greater_equal_broadcast any_map_upt)
next
  case False
  then obtain m where "greater_equal lo hi = Inl (ValueError m)"
    using greater_equal_not_broadcastable by blast
  then show ?thesis by (simp add: check_clip_values_def)
qed

lemma check_clip_values_passes:
  assumes "min_below_max_everywhere lo hi"
  shows "check_clip_values (Some [lo, hi]) = Inr ()"
  using assms
  by (auto simp: check_clip_values_def min_below_max_everywhere_def greater_equal_broadcast
      any_map_upt not_le)

lemma check_clip_values_error:
  assumes "check_clip_values cv = Inl e"
  shows "\<exists>m. e = ValueError m"
proof (cases cv)
  case None
  with assms show ?thesis by (simp add: check_clip_values_def)
next
  case (Some c)
  show ?thesis
  proof (cases "length c = 2")
    case False
    with assms Some show ?thesis by (auto simp: check_clip_values_def)
  next
    case True
    show ?thesis
    proof (cases "broadcastable (c ! 0) (c ! 1)")
      case b: True
      with assms Some True show ?thesis
        by (auto simp: check_clip_values_def greater_equal_broadcast split: if_splits)
    next
      case False
      then obtain m where "greater_equal (c ! 0) (c ! 1) = Inl (ValueError m)"
        using greater_equal_not_broadcastable by blast
      with assms Some True show ?thesis by (auto simp: check_clip_values_def)
    qed
  qed
qed

text \<open>
  The constructor of the base class makes the checks. \<^verbatim>\<open>Classifier.__init__\<close>, which
  receives no data, raises a \<open>ValueError\<close> when the clip bounds are not two, when some
  element of the minimum is greater than or equal to the corresponding element of the
  maximum, and when the standardisation tuple is not of length two; with two clip bounds
  that satisfy \<open>min < max\<close> everywhere and a standardisation tuple of length two it
  returns the classifier.
\<close>

theorem init_configuration_errors:
  "(length c \<noteq> 2 \<longrightarrow> (\<exists>m. init (Some c) pd qd p = Inl (ValueError m))) \<and>
   ((\<exists>i<nb_features lo hi. feature lo i \<ge> feature hi i) \<longrightarrow>
      (\<exists>m. init (Some [lo, hi]) pd qd p = Inl (ValueError m))) \<and>
   (length q \<noteq> 2 \<longrightarrow> (\<exists>m. init cv pd qd (Some q) = Inl (ValueError m))) \<and>
   (min_below_max_everywhere lo hi \<longrightarrow>
      init (Some [lo, hi]) pd qd (Some [a, b]) =
        Inr \<lparr>clip_values = Some [lo, hi], preprocessing_defences = as_list pd,
             postprocessing_defences = as_list qd, preprocessing = Some [a, b]\<rparr>)"
proof (intro conjI impI)
  assume "length c \<noteq> 2"
  then show "\<exists>m. init (Some c) pd qd p = Inl (ValueError m)"
    by (simp add: init_def check_clip_values_def)
next
  assume "\<exists>i<nb_features lo hi. feature lo i \<ge> feature hi i"
  then obtain m where "check_clip_values (Some [lo, hi]) = Inl (ValueError m)"
    using check_clip_values_raises [of lo hi] by auto
  then show "\<exists>m. init (Some [lo, hi]) pd qd p = Inl (ValueError m)"
    by (simp add: init_def)
next
  assume a: "length q \<noteq> 2"
  show "\<exists>m. init cv pd qd (Some q) = Inl (ValueError m)"
  proof (cases "check_clip_values cv")
    case (Inl e)
    then have "\<exists>m. e = ValueError m"
      by (rule check_clip_values_error)
    with Inl show ?thesis by (auto simp: init_def)
  next
    case (Inr u)
    with a show ?thesis by (simp add: init_def)
  qed
next
  assume "min_below_max_everywhere lo hi"
  then show "init (Some [lo, hi]) pd qd (Some [a, b]) =
        Inr \<lparr>clip_values = Some [lo, hi], preprocessing_defences = as_list pd,
             postprocessing_defences = as_list qd, preprocessing = Some [a, b]\<rparr>"
    by (simp add: init_def check_clip_values_passes)
qed

theorem init_configuration_errors_witness:
  "(\<exists>m. init (Some [Scalar 0]) (No_defence :: rat list list preprocessor defences_arg)
          (No_defence :: rat list list postprocessor defences_arg) (Some [1 / 2, 1 / 2 :: rat]) =
        Inl (ValueError m)) \<and>
   (\<exists>m. init (Some [Array [0, 1], Array [1, 1]]) (No_defence :: rat list list preprocessor defences_arg)
          (No_defence :: rat list list postprocessor defences_arg) (Some [1 / 2, 1 / 2 :: rat]) =
        Inl (ValueError m)) \<and>
   (\<exists>m. init (Some [Scalar 0, Scalar 1]) (No_defence :: rat list list preprocessor defences_arg)
          (No_defence :: rat list list postprocessor defences_arg) (Some [1 / 2 :: rat]) =
        Inl (ValueError m)) \<and>
   init (Some [Array [0, 0], Scalar 1]) (One_defence doubling)
          (No_defence :: rat list list postprocessor defences_arg) (Some [1 / 2, 1 / 2 :: rat]) =
     Inr \<lparr>clip_values = Some [Array [0, 0], Scalar 1], preprocessing_defences = Some [doubling],
          postprocessing_defences = None, preprocessing = Some [1 / 2, 1 / 2]\<rparr>"
proof -
  have a: "length [Scalar 0] \<noteq> 2"
    by simp
  have "(1::nat) < nb_features (Array [0, 1]) (Array [1, 1])"
    by (simp add: nb_features_def)
  moreover have "feature (Array [0, 1]) 1 \<ge> feature (Array [1, 1]) 1"
    by simp
  ultimately have b: "\<exists>i<nb_features (Array [0, 1]) (Array [1, 1]).
              feature (Array [0, 1]) i \<ge> feature (Array [1, 1]) i"
    by (rule_tac x = 1 in exI) simp
  have c: "length [1 / 2 :: rat] \<noteq> 2"
    by simp
  have d: "min_below_max_everywhere (Array [0, 0]) (Scalar 1)"
    by (simp add: min_below_max_everywhere_def broadcastable_def nb_features_def less_Suc_eq)
  note t = init_configuration_errors [where c = "[Scalar 0]" and lo = "Array [0, 1]"
      and hi = "Array [1, 1]" and q = "[1 / 2 :: rat]" and cv = "Some [Scalar 0, Scalar 1]"
      and p = "Some [1 / 2, 1 / 2 :: rat]" and a = "1 / 2 :: rat" and b = "1 / 2 :: rat"
      and pd = "No_defence :: rat list list preprocessor defences_arg"
      and qd = "No_defence :: rat list list postprocessor defences_arg"]
  note u = init_configuration_errors [where lo = "Array [0, 0]" and hi = "Scalar 1"
      and a = "1 / 2 :: rat" and b = "1 / 2 :: rat" and pd = "One_defence doubling"
      and qd = "No_defence :: rat list list postprocessor defences_arg"
      and c = "[Scalar 0]" and q = "[1 / 2 :: rat]" and cv = "Some [Scalar 0, Scalar 1]"
      and p = "Some [1 / 2, 1 / 2 :: rat]"]
  note 1 = t [THEN conjunct1, THEN mp, OF a]
  note 2 = t [THEN conjunct2, THEN conjunct1, THEN mp, OF b]
  note 3 = t [THEN conjunct2, THEN conjunct2, THEN conjunct1, THEN mp, OF c]
  have 4: "init (Some [Array [0, 0], Scalar 1]) (One_defence doubling)
          (No_defence :: rat list list postprocessor defences_arg) (Some [1 / 2, 1 / 2 :: rat]) =
     Inr \<lparr>clip_values = Some [Array [0, 0], Scalar 1], preprocessing_defences = Some [doubling],
          postprocessing_defences = None, preprocessing = Some [1 / 2, 1 / 2]\<rparr>"
    using u [THEN conjunct2, THEN conjunct2, THEN conjunct2, THEN mp, OF d]
    by (simp add: as_list_def)
  from 1 2 3 4 show ?thesis by (intro conjI)
qed

text \<open>
  Claim C4 fails for the neural-network classifiers. The constructor
  \<^verbatim>\<open>ClassifierNeuralNetwork.__init__\<close> does not hand the configuration on: given one clip
  bound and a standardisation tuple of length one, it returns a classifier, without clip
  values and without standardisation pair, where \<^verbatim>\<open>Classifier.__init__\<close> given the same
  configuration raises.
\<close>

theorem neural_network_construction_skips_checks:
  "classifier_neural_network_init None (Some [Scalar 0])
       (No_defence :: rat list list preprocessor defences_arg)
       (No_defence :: rat list list postprocessor defences_arg) (Some [1 / 2 :: rat]) =
     Inr \<lparr>clip_values = None, preprocessing_defences = None, postprocessing_defences = None,
          preprocessing = None, channel_index = None\<rparr> \<and>
   (\<exists>m. init (Some [Scalar 0])
       (No_defence :: rat list list preprocessor defences_arg)
       (No_defence :: rat list list postprocessor defences_arg) (Some [1 / 2 :: rat]) =
     Inl (ValueError m))"
  by (simp add: classifier_neural_network_init_def init_def check_clip_values_def as_list_def)

subsection \<open>Layer names\<close>

text \<open>
  Claim C8, as the code has it: reading \<^verbatim>\<open>layer_names\<close> of the base class raises
  \<^verbatim>\<open>NotImplementedError\<close>; it returns neither an empty nor a partial list.
\<close>

theorem layer_names_raises: "layer_names self = Inl NotImplementedError"
  by (simp add: layer_names_def)

text \<open>The claim as stated fails: on a concrete classifier the property raises.\<close>

theorem layer_names_counterexample:
  "layer_names (example_classifier None None) = Inl NotImplementedError"
  by (simp add: layer_names_def)

subsection \<open>Coercion of the inputs\<close>

lemma setattr_replacement_other:
  "item \<noteq> item' \<Longrightarrow> setattr_replacement np_array clsdict has_y item' cls item = cls item"
  by (simp add: setattr_replacement_def)

lemma setattr_replacement_same:
  "clsdict item = Some f \<Longrightarrow>
   setattr_replacement np_array clsdict has_y item cls item =
     Some (replacement_function np_array clsdict item has_y)"
  by (simp add: setattr_replacement_def make_replacement_def)

lemma input_filter_init_unfold:
  "input_filter_init np_array clsdict =
     setattr_replacement np_array clsdict True ''loss_gradient''
       (setattr_replacement np_array clsdict True ''fit''
         (setattr_replacement np_array clsdict False ''class_gradient''
           (setattr_replacement np_array clsdict False ''get_activations''
             (setattr_replacement np_array clsdict False ''predict'' clsdict))))"
  by (simp add: input_filter_init_def replacement_list_no_y_def replacement_list_has_y_def)

lemma input_filter_init_no_y:
  assumes "item \<in> set replacement_list_no_y" and "clsdict item = Some f"
  shows "input_filter_init np_array clsdict item =
           Some (replacement_function np_array clsdict item False)"
proof -
  consider "item = ''predict''" | "item = ''get_activations''" | "item = ''class_gradient''"
    using assms(1) unfolding replacement_list_no_y_def by fastforce
  then show ?thesis
  proof cases
    case 1
    have "clsdict ''predict'' = Some f" using assms(2) 1 by simp
    then show ?thesis
      unfolding 1 input_filter_init_unfold
      by (simp add: setattr_replacement_other setattr_replacement_same)
  next
    case 2
    have "clsdict ''get_activations'' = Some f" using assms(2) 2 by simp
    then show ?thesis
      unfolding 2 input_filter_init_unfold
      by (simp add: setattr_replacement_other setattr_replacement_same)
  next
    case 3
    have "clsdict ''class_gradient'' = Some f" using assms(2) 3 by simp
    then show ?thesis
      unfolding 3 input_filter_init_unfold
      by (simp add: setattr_replacement_other setattr_replacement_same)
  qed
qed

lemma input_filter_init_has_y:
  assumes "item \<in> set replacement_list_has_y" and "clsdict item = Some f"
  shows "input_filter_init np_array clsdict item =
           Some (replacement_function np_array clsdict item True)"
proof -
  consider "item = ''fit''" | "item = ''loss_gradient''"
    using assms(1) unfolding replacement_list_has_y_def by fastforce
  then show ?thesis
  proof cases
    case 1
    have "clsdict ''fit'' = Some f" using assms(2) 1 by simp
    then show ?thesis
      unfolding 1 input_filter_init_unfold
      by (simp add: setattr_replacement_other setattr_replacement_same)
  next
    case 2
    have "clsdict ''loss_gradient'' = Some f" using assms(2) 2 by simp
    then show ?thesis
      unfolding 2 input_filter_init_unfold
      by (simp add: setattr_replacement_other setattr_replacement_same)
  qed
qed

lemma replacement_function_coerces:
  assumes "fdict item = Some f"
    and "supplied_x args kwargs = Some (PyOther sx)"
    and "np_array (PyOther sx) = Inr a"
    and "if has_y then supplied_y args kwargs = Some (PyOther sy) \<and> np_array (PyOther sy) = Inr b
         else kwargs ''y'' = None"
  shows "replacement_function np_array fdict item has_y args kwargs =
           (case coerced_call has_y a b (args, kwargs) of (args', kwargs') \<Rightarrow> f args' kwargs')"
  using assms
  by (auto simp: replacement_function_def coerce_x_def coerce_y_def supplied_x_def supplied_y_def
      coerced_call_def replace_x_def replace_y_def
      split: option.splits if_splits)

lemma replacement_function_on_arrays:
  assumes "fdict item = Some f"
    and "supplied_x args kwargs = Some (PyNdarray a)"
    and "if has_y then supplied_y args kwargs = Some (PyNdarray b) else kwargs ''y'' = None"
  shows "replacement_function np_array fdict item has_y args kwargs = f args kwargs"
  using assms
  by (auto simp: replacement_function_def coerce_x_def coerce_y_def supplied_x_def supplied_y_def
      split: option.splits if_splits)

text \<open>
  Claim C5. Let \<open>item\<close> be one of \<^verbatim>\<open>predict\<close>, \<^verbatim>\<open>get_activations\<close>, \<^verbatim>\<open>class_gradient\<close>,
  \<^verbatim>\<open>fit\<close>, \<^verbatim>\<open>loss_gradient\<close>, defined by the class body as \<open>f\<close>, and let a call pass the
  primary input, and for \<^verbatim>\<open>fit\<close> and \<^verbatim>\<open>loss_gradient\<close> the labels, as plain sequences that
  \<^verbatim>\<open>np.array\<close> accepts, by position or by keyword. Then the method the metaclass installs
  returns on that call what it returns on the call with the arrays in their place, and
  that is what \<open>f\<close> returns on the arrays.
\<close>

theorem input_filter_coerces_sequences:
  assumes "item \<in> set replacement_list_no_y \<union> set replacement_list_has_y"
    and "clsdict item = Some f"
    and "has_y = (item \<in> set replacement_list_has_y)"
    and "supplied_x args kwargs = Some (PyOther sx)"
    and "np_array (PyOther sx) = Inr a"
    and "if has_y then supplied_y args kwargs = Some (PyOther sy) \<and> np_array (PyOther sy) = Inr b
         else kwargs ''y'' = None"
  shows "\<exists>m. input_filter_init np_array clsdict item = Some m \<and>
           (case coerced_call has_y a b (args, kwargs) of (args', kwargs') \<Rightarrow>
              m args kwargs = m args' kwargs' \<and> m args' kwargs' = f args' kwargs')"
proof -
  let ?m = "replacement_function np_array clsdict item has_y"
  have m: "input_filter_init np_array clsdict item = Some ?m"
  proof (cases has_y)
    case True
    with assms(2,3) show ?thesis by (simp add: input_filter_init_has_y)
  next
    case False
    with assms(1,3) have "item \<in> set replacement_list_no_y" by simp
    with assms(2) False show ?thesis by (simp add: input_filter_init_no_y)
  qed
  obtain args' kwargs' where c: "coerced_call has_y a b (args, kwargs) = (args', kwargs')"
    by (cases "coerced_call has_y a b (args, kwargs)")
  have 1: "?m args kwargs = f args' kwargs'"
    using replacement_function_coerces [where fdict = clsdict and item = item
        and np_array = np_array and has_y = has_y and b = b, OF assms(2,4,5,6)] c
    by simp
  have x: "supplied_x args' kwargs' = Some (PyNdarray a)"
    using assms(4,6) c
    by (auto simp: coerced_call_def replace_x_def replace_y_def supplied_x_def supplied_y_def
        split: option.splits if_splits)
  have y: "if has_y then supplied_y args' kwargs' = Some (PyNdarray b) else kwargs' ''y'' = None"
    using assms(4,6) c
    by (auto simp: coerced_call_def replace_x_def replace_y_def supplied_x_def supplied_y_def
        split: option.splits if_splits)
  have 2: "?m args' kwargs' = f args' kwargs'"
    using replacement_function_on_arrays [where fdict = clsdict and item = item
        and np_array = np_array and has_y = has_y, OF assms(2) x y] .
  from m c 1 2 show ?thesis by simp
qed

theorem input_filter_coerces_sequences_witness:
  "\<exists>m. input_filter_init example_np_array [''fit'' \<mapsto> echo] ''fit'' = Some m \<and>
     m [PyOther [[1, 0]]] [''y'' \<mapsto> PyOther [[0, 1]]] =
       Inr ([PyNdarray \<lparr>dtype = Float64, data = [[1, 0]]\<rparr>], None,
            Some (PyNdarray \<lparr>dtype = Float64, data = [[0, 1]]\<rparr>)) \<and>
     m [PyNdarray \<lparr>dtype = Float64, data = [[1, 0]]\<rparr>]
       [''y'' \<mapsto> PyNdarray \<lparr>dtype = Float64, data = [[0, 1]]\<rparr>] =
       Inr ([PyNdarray \<lparr>dtype = Float64, data = [[1, 0]]\<rparr>], None,
            Some (PyNdarray \<lparr>dtype = Float64, data = [[0, 1]]\<rparr>))"
proof -
  have h1: "''fit'' \<in> set replacement_list_no_y \<union> set replacement_list_has_y"
    by (simp add: replacement_list_has_y_def)
  have h2: "[''fit'' \<mapsto> echo] ''fit'' = Some echo"
    by simp
  have h3: "True = (''fit'' \<in> set replacement_list_has_y)"
    by (simp add: replacement_list_has_y_def)
  have h4: "supplied_x [PyOther [[1, 0]]]
              [''y'' \<mapsto> (PyOther [[0, 1]] :: (rat list list ndarray, rat list list) pyobj)] =
            Some (PyOther [[1, 0]])"
    by (simp add: supplied_x_def)
  have h5: "example_np_array (PyOther [[1, 0]]) = Inr \<lparr>dtype = Float64, data = [[1, 0]]\<rparr>"
    by (simp add: example_np_array_def)
  have h6: "if True then supplied_y [PyOther [[1, 0]]]
              [''y'' \<mapsto> (PyOther [[0, 1]] :: (rat list list ndarray, rat list list) pyobj)] =
              Some (PyOther [[0, 1]]) \<and>
              example_np_array (PyOther [[0, 1]]) = Inr \<lparr>dtype = Float64, data = [[0, 1]]\<rparr>
            else [''y'' \<mapsto> (PyOther [[0, 1]] :: (rat list list ndarray, rat list list) pyobj)] ''y'' = None"
    by (simp add: supplied_y_def example_np_array_def)
  show ?thesis
    using input_filter_coerces_sequences [where clsdict = "[''fit'' \<mapsto> echo]"
        and item = "''fit''" and np_array = example_np_array and has_y = True,
        OF h1 h2 h3 h4 h5 h6]
    by (auto simp: coerced_call_def replace_x_def replace_y_def echo_def)
qed

subsection \<open>Postprocessing works on a copy\<close>

text \<open>
  The store can show a write: a postprocessor that works in place, called on the array at
  address 0, changes that array.
\<close>

lemma call_postprocessor_writes_through:
  "cells (snd (call_postprocessor halving_in_place 0 example_heap)) 0 =
     \<lparr>dtype = Float64, data = [[1, 3]]\<rparr>"
  by (simp add: call_postprocessor_def halving_in_place_def example_heap_def)





subsection \<open>Fitting from a generator\<close>





















end
